theory Spec2Isabelle
  imports Complex_Main
begin

section \<open>The link-based cellular automaton of landlab (link\_ca.py)\<close>

text \<open>
  A shallow embedding of \<^verbatim>\<open>LinkCellularAutomaton\<close> and its helper classes.
  Python exceptions are values of the type \<open>error\<close>; a function that can raise
  returns \<open>error + 'a\<close> with \<open>Inl\<close> for the exception. Node states and link
  states are natural numbers (the non-negative ids of the numpy integer arrays),
  times and rates are reals (the floats of the source, used here only through
  order, equality, addition and one division).
\<close>

subsection \<open>Errors\<close>

datatype error =
    AssertionError
  | KeyError
  | IndexError
  | TypeError
  | ValueError
  | NonFinite  \<comment> \<open>not an exception: a float left the reals (\<open>1.0/0.0 = inf\<close> in numpy)\<close>

definition bindE :: "error + 'a \<Rightarrow> ('a \<Rightarrow> error + 'b) \<Rightarrow> error + 'b" where
  "bindE m f = (case m of Inl e \<Rightarrow> Inl e | Inr x \<Rightarrow> f x)"

subsection \<open>The link-state codec\<close>

text \<open>
  \<^verbatim>\<open>create_link_state_dict_and_pair_list\<close>: three nested loops over
  \<^verbatim>\<open>range(2)\<close>, \<^verbatim>\<open>range(num_node_states)\<close> and \<^verbatim>\<open>range(num_node_states)\<close>;
  the body stores \<open>k\<close> under the key \<open>(fromstate, tostate, orientation)\<close>,
  increments \<open>k\<close> and appends the key to \<open>cell_pair\<close>.
\<close>

type_synonym triple = "nat \<times> nat \<times> nat"
type_synonym codec = "(triple \<rightharpoonup> nat) \<times> triple list \<times> nat"

definition codec_body :: "codec \<Rightarrow> triple \<Rightarrow> codec" where
  "codec_body c key = (case c of (d, cp, k) \<Rightarrow> (d(key \<mapsto> k), cp @ [key], k + 1))"

definition tostate_loop :: "nat \<Rightarrow> nat \<Rightarrow> nat \<Rightarrow> codec \<Rightarrow> codec" where
  "tostate_loop n orientation fromstate c =
     foldl (\<lambda>c tostate. codec_body c (fromstate, tostate, orientation)) c [0..<n]"

definition fromstate_loop :: "nat \<Rightarrow> nat \<Rightarrow> codec \<Rightarrow> codec" where
  "fromstate_loop n orientation c =
     foldl (\<lambda>c fromstate. tostate_loop n orientation fromstate c) c [0..<n]"

definition create_link_state_dict_and_pair_list :: "nat \<Rightarrow> codec" where
  "create_link_state_dict_and_pair_list num_node_states =
     foldl (\<lambda>c orientation. fromstate_loop num_node_states orientation c)
       (Map.empty, [], 0) [0..<2]"

definition link_state_dict_of :: "nat \<Rightarrow> triple \<rightharpoonup> nat" where
  "link_state_dict_of n = fst (create_link_state_dict_and_pair_list n)"

definition cell_pair_of :: "nat \<Rightarrow> triple list" where
  "cell_pair_of n = fst (snd (create_link_state_dict_and_pair_list n))"

text \<open>\<^verbatim>\<open>self.num_link_states = 2*self.num_node_states*self.num_node_states\<close>\<close>

definition num_link_states_of :: "nat \<Rightarrow> nat" where
  "num_link_states_of num_node_states = 2 * num_node_states * num_node_states"

text \<open>\<^verbatim>\<open>d[key]\<close> on a Python dict: KeyError when the key is absent.\<close>

definition lookup :: "('k \<rightharpoonup> 'v) \<Rightarrow> 'k \<Rightarrow> error + 'v" where
  "lookup d key = (case d key of None \<Rightarrow> Inl KeyError | Some v \<Rightarrow> Inr v)"

text \<open>The keys in the order the loops visit them.\<close>

definition triples :: "nat \<Rightarrow> triple list" where
  "triples n =
     concat (map (\<lambda>orientation.
       concat (map (\<lambda>fromstate.
         map (\<lambda>tostate. (fromstate, tostate, orientation)) [0..<n]) [0..<n])) [0..<2])"

subsection \<open>Transitions, events and the event queue\<close>

text \<open>
  \<^verbatim>\<open>Transition.from_state\<close> and \<^verbatim>\<open>to_state\<close> are either an integer id or a tuple
  (from-node state, to-node state, orientation). Ids and tuple components are
  naturals here: the negative integers that the assertions of \<^verbatim>\<open>__init__\<close> let
  through, and that numpy would index from the end, are outside this model.
\<close>

datatype xstate = Id nat | Tuple "nat list"

record Transition =
  from_state :: xstate
  to_state :: xstate
  rate :: real
  name :: "string option"

text \<open>
  Transition objects live in a store, and a Python list of transitions is a list
  of addresses: \<^verbatim>\<open>transition_list[:]\<close> copies the addresses, not the objects.
\<close>

type_synonym store = "nat \<Rightarrow> Transition"

datatype Event = Event (time: real) (link: nat) (xn_to: "nat option")

text \<open>\<^verbatim>\<open>Event.__lt__\<close>\<close>

definition Event_lt :: "Event \<Rightarrow> Event \<Rightarrow> bool" where
  "Event_lt self other = (time self < time other)"

text \<open>
  heapq is Python's standard library, not part of the source.
  Modelled from the spec: the event queue is a min-heap keyed on scheduled time
  (compared with \<^verbatim>\<open>__lt__\<close> only), ties broken by insertion order. The queue is
  the list of its entries in insertion order; \<open>heappop\<close> takes out the first
  entry of least time, and raises IndexError on an empty queue.
\<close>

definition heappush :: "Event list \<Rightarrow> Event \<Rightarrow> Event list" where
  "heappush q e = q @ [e]"

fun min_event :: "Event \<Rightarrow> Event list \<Rightarrow> Event" where
  "min_event e [] = e"
| "min_event e (x # xs) = (if Event_lt x e then min_event x xs else min_event e xs)"

definition heappop :: "Event list \<Rightarrow> error + (Event \<times> Event list)" where
  "heappop q =
     (case q of
        [] \<Rightarrow> Inl IndexError
      | e # es \<Rightarrow> Inr (min_event e es, remove1 (min_event e es) q))"

definition NEVER :: real where
  "NEVER = 10 ^ 12"

subsection \<open>The grid\<close>

text \<open>
  The \<^verbatim>\<open>RasterModelGrid\<close> is not part of the source; the engine reads these
  attributes of it. \<open>node_active_links g ! n\<close> is the column
  \<^verbatim>\<open>active_node_links()[:, n]\<close>, with \<open>-1\<close> where a node has no link.
\<close>

record grid =
  number_of_nodes :: nat
  number_of_node_rows :: nat
  number_of_node_columns :: nat
  number_of_active_links :: nat
  activelink_fromnode :: "nat list"
  activelink_tonode :: "nat list"
  active_links :: "nat list"
  node_status :: "nat list"
  node_active_links :: "int list list"

text \<open>\<^verbatim>\<open>landlab.grid.base.CORE_NODE\<close>\<close>

definition CORE_NODE :: nat where
  "CORE_NODE = 0"

text \<open>
  What the engine relies on in a grid: the arrays have the announced lengths, a
  link joins two different nodes of the grid, the links listed at a node are
  \<open>-1\<close> or active links, and every active link is listed at both of its ends.
\<close>

definition grid_ok :: "grid \<Rightarrow> bool" where
  "grid_ok g \<longleftrightarrow>
     length (activelink_fromnode g) = number_of_active_links g
   \<and> length (activelink_tonode g) = number_of_active_links g
   \<and> length (active_links g) = number_of_active_links g
   \<and> length (node_status g) = number_of_nodes g
   \<and> length (node_active_links g) = number_of_nodes g
   \<and> (\<forall>l < number_of_active_links g.
         activelink_fromnode g ! l < number_of_nodes g
       \<and> activelink_tonode g ! l < number_of_nodes g
       \<and> activelink_fromnode g ! l \<noteq> activelink_tonode g ! l
       \<and> int l \<in> set (node_active_links g ! (activelink_fromnode g ! l))
       \<and> int l \<in> set (node_active_links g ! (activelink_tonode g ! l)))
   \<and> (\<forall>n < number_of_nodes g. \<forall>x \<in> set (node_active_links g ! n).
         x = -1 \<or> (0 \<le> x \<and> nat x < number_of_active_links g))"

subsection \<open>The automaton\<close>

text \<open>
  The attributes of a \<^verbatim>\<open>LinkCellularAutomaton\<close>. \<open>xn_to_tab\<close> is the array
  \<^verbatim>\<open>self.xn_to\<close> (the name \<open>xn_to\<close> is the field of an event). \<open>rng_count\<close> is
  the number of draws made so far from numpy's process-wide generator.
\<close>

record ca =
  node_state :: "nat list"
  current_time :: real
  num_node_states :: nat
  num_link_states :: nat
  event_queue :: "Event list"
  next_update :: "real list"
  link_state_dict :: "triple \<rightharpoonup> nat"
  cell_pair :: "triple list"
  number_of_vertical_links :: int
  link_state :: "nat list"
  n_xn :: "nat list"
  xn_to_tab :: "nat list list"
  xn_rate :: "real list list"
  rng_count :: nat

text \<open>
  \<^verbatim>\<open>numpy.random.exponential(1.0/rate)\<close>, the \<open>k\<close>-th draw. The random source
  \<open>rng\<close> gives the standard exponential variates of the seeded generator in the
  order they are drawn; numpy scales the variate by \<open>1.0/rate\<close>. A negative scale
  raises ValueError; a zero rate makes the scale infinite, which has no real
  value.
\<close>

definition random_exponential :: "(nat \<Rightarrow> real) \<Rightarrow> nat \<Rightarrow> real \<Rightarrow> error + real" where
  "random_exponential rng k r =
     (if r < 0 then Inl ValueError
      else if r = 0 then Inl NonFinite
      else Inr ((1 / r) * rng k))"

text \<open>\<^verbatim>\<open>set_node_state_grid\<close>\<close>

definition set_node_state_grid :: "grid \<Rightarrow> nat list \<Rightarrow> ca \<Rightarrow> error + ca" where
  "set_node_state_grid g node_states s =
     (if length node_states = number_of_nodes g
      then Inr (s\<lparr>node_state := node_states\<rparr>)
      else Inl AssertionError)"

text \<open>\<^verbatim>\<open>active_link_orientation\<close>\<close>

definition active_link_orientation :: "grid \<Rightarrow> ca \<Rightarrow> nat \<Rightarrow> nat" where
  "active_link_orientation g s act_link_id =
     (if int (active_links g ! act_link_id) < number_of_vertical_links s then 1 else 0)"

text \<open>The key \<^verbatim>\<open>(node_state[fromnode], node_state[tonode], orientation)\<close> of a link.\<close>

definition node_pair :: "grid \<Rightarrow> ca \<Rightarrow> nat \<Rightarrow> triple" where
  "node_pair g s i =
     (node_state s ! (activelink_fromnode g ! i),
      node_state s ! (activelink_tonode g ! i),
      active_link_orientation g s i)"

text \<open>\<^verbatim>\<open>assign_link_states_from_node_types\<close>\<close>

fun assign_loop :: "grid \<Rightarrow> nat list \<Rightarrow> ca \<Rightarrow> error + ca" where
  "assign_loop g [] s = Inr s"
| "assign_loop g (i # is) s =
     bindE (lookup (link_state_dict s) (node_pair g s i))
       (\<lambda>k. assign_loop g is (s\<lparr>link_state := (link_state s)[i := k]\<rparr>))"

definition assign_link_states_from_node_types :: "grid \<Rightarrow> ca \<Rightarrow> error + ca" where
  "assign_link_states_from_node_types g s =
     assign_loop g [0..<number_of_active_links g]
       (s\<lparr>link_state := replicate (number_of_active_links g) 0\<rparr>)"

text \<open>
  \<^verbatim>\<open>setup_transition_data\<close>. An entry of \<open>xn_list\<close> is used as an array index, so
  it has to be an id.
\<close>

definition the_id :: "xstate \<Rightarrow> error + nat" where
  "the_id x = (case x of Id k \<Rightarrow> Inr k | Tuple _ \<Rightarrow> Inl IndexError)"

fun count_loop :: "Transition list \<Rightarrow> nat list \<Rightarrow> error + nat list" where
  "count_loop [] n = Inr n"
| "count_loop (xn # xns) n =
     bindE (the_id (from_state xn))
       (\<lambda>f. if f < length n then count_loop xns (n[f := n ! f + 1]) else Inl IndexError)"

fun fill_loop :: "Transition list \<Rightarrow> nat list \<times> nat list list \<times> real list list \<Rightarrow>
    error + (nat list \<times> nat list list \<times> real list list)" where
  "fill_loop [] tabs = Inr tabs"
| "fill_loop (xn # xns) (n, tos, rates) =
     bindE (the_id (from_state xn))
       (\<lambda>f. bindE (the_id (to_state xn))
         (\<lambda>t. if f < length n \<and> n ! f < length (tos ! f)
              then fill_loop xns
                (n[f := n ! f + 1],
                 tos[f := (tos ! f)[n ! f := t]],
                 rates[f := (rates ! f)[n ! f := rate xn]])
              else Inl IndexError))"

definition setup_transition_data :: "Transition list \<Rightarrow> ca \<Rightarrow> error + ca" where
  "setup_transition_data xn_list s =
     bindE (count_loop xn_list (replicate (num_link_states s) 0))
       (\<lambda>counts.
          if counts = [] then Inl ValueError
          else
            let max_transitions = Max (set counts) in
            bindE (fill_loop xn_list
                     (replicate (num_link_states s) 0,
                      replicate (num_link_states s) (replicate max_transitions 0),
                      replicate (num_link_states s) (replicate max_transitions 0)))
              (\<lambda>(n, tos, rates).
                 Inr (s\<lparr>n_xn := n, xn_to_tab := tos, xn_rate := rates\<rparr>)))"

text \<open>
  \<^verbatim>\<open>get_next_event\<close>. The loop of the branch with several transitions keeps the
  least draw below \<open>NEVER\<close> and its target; \<open>xn\<close> stays \<open>None\<close> when no draw is
  below \<open>NEVER\<close>.
\<close>

fun next_event_loop :: "(nat \<Rightarrow> real) \<Rightarrow> nat list \<Rightarrow> real list \<Rightarrow> nat list \<Rightarrow>
    nat \<Rightarrow> real \<Rightarrow> nat option \<Rightarrow> error + (real \<times> nat option \<times> nat)" where
  "next_event_loop rng tos rates [] k next_time xn = Inr (next_time, xn, k)"
| "next_event_loop rng tos rates (i # is) k next_time xn =
     bindE (random_exponential rng k (rates ! i))
       (\<lambda>this_next.
          if this_next < next_time
          then next_event_loop rng tos rates is (Suc k) this_next (Some (tos ! i))
          else next_event_loop rng tos rates is (Suc k) next_time xn)"

definition get_next_event ::
    "(nat \<Rightarrow> real) \<Rightarrow> ca \<Rightarrow> nat \<Rightarrow> nat \<Rightarrow> real \<Rightarrow> error + (Event \<times> ca)" where
  "get_next_event rng s lnk current_state now =
     (if \<not> n_xn s ! current_state > 0 then Inl AssertionError
      else if n_xn s ! current_state = 1 then
        bindE (random_exponential rng (rng_count s) (xn_rate s ! current_state ! 0))
          (\<lambda>next_time.
             Inr (Event (next_time + now) lnk (Some (xn_to_tab s ! current_state ! 0)),
                  s\<lparr>rng_count := Suc (rng_count s)\<rparr>))
      else
        bindE (next_event_loop rng (xn_to_tab s ! current_state) (xn_rate s ! current_state)
                 [0..<n_xn s ! current_state] (rng_count s) NEVER None)
          (\<lambda>(next_time, xn, k).
             Inr (Event (next_time + now) lnk xn, s\<lparr>rng_count := k\<rparr>)))"

text \<open>The tail shared by \<^verbatim>\<open>push_transitions_to_event_queue\<close> and \<^verbatim>\<open>update_link_state\<close>:
  schedule the next event of a link in state \<open>st\<close>, or mark the link as never updating.\<close>

definition schedule :: "(nat \<Rightarrow> real) \<Rightarrow> ca \<Rightarrow> nat \<Rightarrow> nat \<Rightarrow> real \<Rightarrow> error + ca" where
  "schedule rng s lnk st now =
     (if n_xn s ! st > 0 then
        bindE (get_next_event rng s lnk st now)
          (\<lambda>(event, s').
             Inr (s'\<lparr>event_queue := heappush (event_queue s') event,
                     next_update := (next_update s')[lnk := time event]\<rparr>))
      else Inr (s\<lparr>next_update := (next_update s)[lnk := NEVER]\<rparr>))"

text \<open>\<^verbatim>\<open>push_transitions_to_event_queue\<close>\<close>

fun push_loop :: "(nat \<Rightarrow> real) \<Rightarrow> nat list \<Rightarrow> ca \<Rightarrow> error + ca" where
  "push_loop rng [] s = Inr s"
| "push_loop rng (i # is) s =
     bindE (schedule rng s i (link_state s ! i) 0) (\<lambda>s'. push_loop rng is s')"

definition push_transitions_to_event_queue ::
    "(nat \<Rightarrow> real) \<Rightarrow> grid \<Rightarrow> ca \<Rightarrow> error + ca" where
  "push_transitions_to_event_queue rng g s = push_loop rng [0..<number_of_active_links g] s"

text \<open>
  \<^verbatim>\<open>update_node_states\<close>. \<^verbatim>\<open>cell_pair[new_link_state]\<close> raises TypeError when the
  event carries \<open>None\<close> and IndexError when the id is out of range.
\<close>

definition decode :: "ca \<Rightarrow> nat option \<Rightarrow> error + triple" where
  "decode s new_link_state =
     (case new_link_state of
        None \<Rightarrow> Inl TypeError
      | Some x \<Rightarrow> if x < length (cell_pair s) then Inr (cell_pair s ! x) else Inl IndexError)"

definition update_node_states ::
    "grid \<Rightarrow> ca \<Rightarrow> nat \<Rightarrow> nat \<Rightarrow> nat option \<Rightarrow> error + (bool \<times> bool \<times> ca)" where
  "update_node_states g s fromnode tonode new_link_state =
     (let old_fromnode_state = node_state s ! fromnode;
          old_tonode_state = node_state s ! tonode
      in
      bindE (if node_status g ! fromnode = CORE_NODE
             then bindE (decode s new_link_state)
                    (\<lambda>p. Inr (s\<lparr>node_state := (node_state s)[fromnode := fst p]\<rparr>))
             else Inr s)
        (\<lambda>s1.
      bindE (if node_status g ! tonode = CORE_NODE
             then bindE (decode s1 new_link_state)
                    (\<lambda>p. Inr (s1\<lparr>node_state := (node_state s1)[tonode := fst (snd p)]\<rparr>))
             else Inr s1)
        (\<lambda>s2.
      Inr (node_state s2 ! fromnode \<noteq> old_fromnode_state,
           node_state s2 ! tonode \<noteq> old_tonode_state,
           s2))))"

text \<open>\<^verbatim>\<open>update_link_state\<close>\<close>

definition update_link_state ::
    "(nat \<Rightarrow> real) \<Rightarrow> grid \<Rightarrow> ca \<Rightarrow> nat \<Rightarrow> nat option \<Rightarrow> real \<Rightarrow> error + ca" where
  "update_link_state rng g s lnk new_link_state now =
     (let fn = activelink_fromnode g ! lnk;
          tn = activelink_tonode g ! lnk
      in
      bindE (if node_status g ! fn \<noteq> CORE_NODE \<or> node_status g ! tn \<noteq> CORE_NODE
             then lookup (link_state_dict s) (node_pair g s lnk)
             else (case new_link_state of None \<Rightarrow> Inl TypeError | Some x \<Rightarrow> Inr x))
        (\<lambda>new_link_state'.
           schedule rng (s\<lparr>link_state := (link_state s)[lnk := new_link_state']\<rparr>)
             lnk new_link_state' now))"

text \<open>
  The loops of \<^verbatim>\<open>do_transition\<close> over \<^verbatim>\<open>node_active_links[:, node]\<close>: every
  listed link other than \<open>-1\<close> and the link of the event gets the state of its
  current node pair.
\<close>

fun update_other_links ::
    "(nat \<Rightarrow> real) \<Rightarrow> grid \<Rightarrow> Event \<Rightarrow> int list \<Rightarrow> ca \<Rightarrow> error + ca" where
  "update_other_links rng g event [] s = Inr s"
| "update_other_links rng g event (l # ls) s =
     (if l \<noteq> -1 \<and> l \<noteq> int (link event) then
        bindE (lookup (link_state_dict s) (node_pair g s (nat l)))
          (\<lambda>new_link_state.
        bindE (update_link_state rng g s (nat l) (Some new_link_state) (time event))
          (\<lambda>s'. update_other_links rng g event ls s'))
      else update_other_links rng g event ls s)"

text \<open>\<^verbatim>\<open>do_transition\<close> (the argument \<^verbatim>\<open>current_time\<close> is not used by the source).\<close>

definition do_transition ::
    "(nat \<Rightarrow> real) \<Rightarrow> grid \<Rightarrow> ca \<Rightarrow> Event \<Rightarrow> real \<Rightarrow> error + ca" where
  "do_transition rng g s event now =
     (if time event = next_update s ! link event then
        let fromnode = activelink_fromnode g ! link event;
            tonode = activelink_tonode g ! link event
        in
        bindE (update_node_states g s fromnode tonode (xn_to event))
          (\<lambda>(from_changed, to_changed, s1).
        bindE (update_link_state rng g s1 (link event) (xn_to event) (time event))
          (\<lambda>s2.
        bindE (if from_changed
               then update_other_links rng g event (node_active_links g ! fromnode) s2
               else Inr s2)
          (\<lambda>s3.
        if to_changed
        then update_other_links rng g event (node_active_links g ! tonode) s3
        else Inr s3)))
      else Inr s)"

text \<open>
  \<^verbatim>\<open>run\<close>. \<open>run_body\<close> is one pass through the body of the while loop and also
  returns the event it popped. The loop may go on for ever, so \<open>run_loop\<close>
  takes a bound on the number of passes: \<open>None\<close> means that the loop was still
  running when the bound was reached.
\<close>

definition run_body :: "(nat \<Rightarrow> real) \<Rightarrow> grid \<Rightarrow> ca \<Rightarrow> error + (Event \<times> ca)" where
  "run_body rng g s =
     bindE (heappop (event_queue s))
       (\<lambda>(ev, q).
     bindE (do_transition rng g (s\<lparr>event_queue := q\<rparr>) ev (current_time s))
       (\<lambda>s'. Inr (ev, s'\<lparr>current_time := time ev\<rparr>)))"

fun run_loop :: "(nat \<Rightarrow> real) \<Rightarrow> grid \<Rightarrow> nat \<Rightarrow> real \<Rightarrow> ca \<Rightarrow> (error + ca) option" where
  "run_loop rng g 0 run_duration s =
     (if current_time s < run_duration \<and> event_queue s \<noteq> [] then None else Some (Inr s))"
| "run_loop rng g (Suc fuel) run_duration s =
     (if current_time s < run_duration \<and> event_queue s \<noteq> [] then
        (case run_body rng g s of
           Inl e \<Rightarrow> Some (Inl e)
         | Inr (ev, s') \<Rightarrow> run_loop rng g fuel run_duration s')
      else Some (Inr s))"

definition run ::
    "(nat \<Rightarrow> real) \<Rightarrow> grid \<Rightarrow> nat \<Rightarrow> real \<Rightarrow> nat list option \<Rightarrow> ca \<Rightarrow> (error + ca) option" where
  "run rng g fuel run_duration node_state_grid s =
     (case (case node_state_grid of
              None \<Rightarrow> Inr s
            | Some node_states \<Rightarrow> set_node_state_grid g node_states s) of
        Inl e \<Rightarrow> Some (Inl e)
      | Inr s' \<Rightarrow> run_loop rng g fuel run_duration s')"

text \<open>A sequence of calls of \<^verbatim>\<open>run\<close>, each with its duration and its optional
  \<^verbatim>\<open>node_state_grid\<close>.\<close>

fun run_calls :: "(nat \<Rightarrow> real) \<Rightarrow> grid \<Rightarrow> nat \<Rightarrow> (real \<times> nat list option) list \<Rightarrow> ca \<Rightarrow>
    (error + ca) option" where
  "run_calls rng g fuel [] s = Some (Inr s)"
| "run_calls rng g fuel (c # cs) s =
     (case run rng g fuel (fst c) (snd c) s of
        None \<Rightarrow> None
      | Some (Inl e) \<Rightarrow> Some (Inl e)
      | Some (Inr s') \<Rightarrow> run_calls rng g fuel cs s')"

subsection \<open>The constructor\<close>

text \<open>
  The checks of \<^verbatim>\<open>__init__\<close> on one transition. The \<^verbatim>\<open>try\<close> block succeeds when
  both states are ids below \<open>num_link_states\<close>; anything else reaches the
  \<^verbatim>\<open>except\<close> block, which asserts that both states are tuples, that all
  components but the last are below \<open>num_node_states\<close> and that the last is below 2.
\<close>

datatype id_type = IntType | TupleType

definition check_transition :: "nat \<Rightarrow> nat \<Rightarrow> Transition \<Rightarrow> error + id_type" where
  "check_transition nns nls t =
     (case (from_state t, to_state t) of
        (Id a, Id b) \<Rightarrow> if a < nls \<and> b < nls then Inr IntType else Inl AssertionError
      | (Id a, Tuple ts) \<Rightarrow> Inl AssertionError
      | (Tuple fs, Id b) \<Rightarrow> Inl AssertionError
      | (Tuple fs, Tuple ts) \<Rightarrow>
          if \<not> (\<forall>i \<in> set (butlast fs). i < nns) then Inl AssertionError
          else if \<not> (\<forall>i \<in> set (butlast ts). i < nns) then Inl AssertionError
          else if fs = [] then Inl IndexError
          else if \<not> last fs < 2 then Inl AssertionError
          else if ts = [] then Inl IndexError
          else if \<not> last ts < 2 then Inl AssertionError
          else Inr TupleType)"

fun check_loop :: "nat \<Rightarrow> nat \<Rightarrow> Transition list \<Rightarrow> id_type option \<Rightarrow> error + id_type option" where
  "check_loop nns nls [] last_type = Inr last_type"
| "check_loop nns nls (t # ts) last_type =
     bindE (check_transition nns nls t)
       (\<lambda>this_type.
          if last_type = Some this_type \<or> last_type = None
          then check_loop nns nls ts (Some this_type)
          else Inl AssertionError)"

definition check_transition_list :: "nat \<Rightarrow> nat \<Rightarrow> Transition list \<Rightarrow> error + id_type option" where
  "check_transition_list nns nls ts =
     (if ts = [] then Inl AssertionError else check_loop nns nls ts None)"

text \<open>\<^verbatim>\<open>self.link_state_dict[x]\<close> for a state \<open>x\<close> of a transition: the keys of the
  dictionary are the tuples of three components.\<close>

definition lookup_state :: "(triple \<rightharpoonup> nat) \<Rightarrow> xstate \<Rightarrow> error + nat" where
  "lookup_state d x =
     (case x of
        Tuple [f, t, orientation] \<Rightarrow> lookup d (f, t, orientation)
      | _ \<Rightarrow> Inl KeyError)"

text \<open>
  The conversion of the transitions to ids. \<open>as_ID\<close> is the copy
  \<^verbatim>\<open>transition_list[:]\<close>; the loop reads the object at \<^verbatim>\<open>transition_list[i]\<close> and
  writes the object at \<^verbatim>\<open>transition_list_as_ID[i]\<close>.
\<close>

fun convert_loop :: "(triple \<rightharpoonup> nat) \<Rightarrow> (nat \<times> nat) list \<Rightarrow> store \<Rightarrow> error + store" where
  "convert_loop d [] h = Inr h"
| "convert_loop d ((dst, src) # ps) h =
     bindE (lookup_state d (from_state (h src)))
       (\<lambda>k. let h1 = h(dst := (h dst)\<lparr>from_state := Id k\<rparr>) in
     bindE (lookup_state d (to_state (h1 src)))
       (\<lambda>k'. convert_loop d ps (h1(dst := (h1 dst)\<lparr>to_state := Id k'\<rparr>))))"

definition is_tuple :: "xstate \<Rightarrow> bool" where
  "is_tuple x = (case x of Tuple _ \<Rightarrow> True | Id _ \<Rightarrow> False)"

definition convert_transition_list ::
    "(triple \<rightharpoonup> nat) \<Rightarrow> nat list \<Rightarrow> store \<Rightarrow> error + (nat list \<times> store)" where
  "convert_transition_list d transition_list h =
     (let transition_list_as_ID = transition_list in
      if is_tuple (from_state (h (transition_list ! 0)))
      then bindE (convert_loop d (zip transition_list_as_ID transition_list) h)
             (\<lambda>h'. Inr (transition_list_as_ID, h'))
      else Inr (transition_list_as_ID, h))"

text \<open>
  \<^verbatim>\<open>__init__\<close>, in the order of the source. The result is the automaton and the
  store of the transition objects as the constructor leaves it.
\<close>

definition LinkCellularAutomaton_init ::
    "(nat \<Rightarrow> real) \<Rightarrow> nat \<Rightarrow> grid \<Rightarrow> (nat \<times> string) list \<Rightarrow> store \<Rightarrow> nat list \<Rightarrow> nat list \<Rightarrow>
     error + (ca \<times> store)" where
  "LinkCellularAutomaton_init rng rng_start model_grid node_state_dict h transition_list
       initial_node_states =
     (let s0 = \<lparr>node_state = [], current_time = 0, num_node_states = 0, num_link_states = 0,
                event_queue = [], next_update = [], link_state_dict = Map.empty,
                cell_pair = [], number_of_vertical_links = 0, link_state = [],
                n_xn = [], xn_to_tab = [], xn_rate = [], rng_count = rng_start\<rparr>
      in
      bindE (set_node_state_grid model_grid initial_node_states s0)
        (\<lambda>s1.
      let s2 = s1\<lparr>current_time := 0,
                  num_node_states := length node_state_dict,
                  num_link_states := num_link_states_of (length node_state_dict)\<rparr>
      in
      bindE (check_transition_list (num_node_states s2) (num_link_states s2)
               (map h transition_list))
        (\<lambda>_.
      let s3 = s2\<lparr>event_queue := [],
                  next_update := replicate (number_of_active_links model_grid) 0\<rparr>;
          s4 = s3\<lparr>link_state_dict := link_state_dict_of (num_node_states s3),
                  cell_pair := cell_pair_of (num_node_states s3)\<rparr>
      in
      bindE (convert_transition_list (link_state_dict s4) transition_list h)
        (\<lambda>(transition_list_as_ID, h').
      let s5 = s4\<lparr>number_of_vertical_links :=
                    int (number_of_node_columns model_grid)
                      * (int (number_of_node_rows model_grid) - 1)\<rparr>
      in
      bindE (assign_link_states_from_node_types model_grid s5)
        (\<lambda>s6.
      bindE (setup_transition_data (map h' transition_list_as_ID) s6)
        (\<lambda>s7.
      bindE (push_transitions_to_event_queue rng model_grid s7)
        (\<lambda>s8. Inr (s8, h'))))))))"

subsection \<open>The codec: proofs\<close>

primrec store_keys :: "('a \<rightharpoonup> nat) \<Rightarrow> nat \<Rightarrow> 'a list \<Rightarrow> ('a \<rightharpoonup> nat)" where
  "store_keys d k [] = d"
| "store_keys d k (x # xs) = store_keys (d(x \<mapsto> k)) (Suc k) xs"

lemma codec_body_simp: "codec_body (d, cp, k) key = (d(key \<mapsto> k), cp @ [key], Suc k)"
  by (simp add: codec_body_def)

lemma foldl_codec_body:
  "foldl codec_body (d, cp, k) xs = (store_keys d k xs, cp @ xs, k + length xs)"
proof (induction xs arbitrary: d cp k)
  case Nil
  show ?case by simp
next
  case (Cons x xs)
  have "foldl codec_body (d, cp, k) (x # xs) =
        foldl codec_body (d(x \<mapsto> k), cp @ [x], Suc k) xs"
    by (simp only: foldl_Cons codec_body_simp)
  also have "\<dots> = (store_keys (d(x \<mapsto> k)) (Suc k) xs, (cp @ [x]) @ xs, Suc k + length xs)"
    by (rule Cons.IH)
  finally show ?case by simp
qed

lemma store_keys_notin: "y \<notin> set xs \<Longrightarrow> store_keys d k xs y = d y"
  by (induction xs arbitrary: d k) auto

lemma store_keys_nth:
  "distinct xs \<Longrightarrow> i < length xs \<Longrightarrow> store_keys d k xs (xs ! i) = Some (k + i)"
proof (induction xs arbitrary: d k i)
  case Nil
  then show ?case by simp
next
  case (Cons x xs)
  show ?case
  proof (cases i)
    case 0
    then show ?thesis
      using Cons.prems by (simp add: store_keys_notin)
  next
    case (Suc j)
    have "store_keys (d(x \<mapsto> k)) (Suc k) xs (xs ! j) = Some (Suc k + j)"
      using Cons.prems Suc by (intro Cons.IH) auto
    then show ?thesis
      using Suc by simp
  qed
qed

lemma tostate_loop_eq:
  "tostate_loop n orientation fromstate c =
     foldl codec_body c (map (\<lambda>tostate. (fromstate, tostate, orientation)) [0..<n])"
  by (simp add: tostate_loop_def foldl_map)

lemma fromstate_loop_eq:
  "fromstate_loop n orientation c =
     foldl codec_body c
       (concat (map (\<lambda>fromstate.
          map (\<lambda>tostate. (fromstate, tostate, orientation)) [0..<n]) [0..<n]))"
proof -
  have "foldl (\<lambda>c fromstate. tostate_loop n orientation fromstate c) c fs =
        foldl codec_body c
          (concat (map (\<lambda>fromstate.
             map (\<lambda>tostate. (fromstate, tostate, orientation)) [0..<n]) fs))" for fs
    by (induction fs arbitrary: c) (simp_all add: tostate_loop_eq)
  then show ?thesis by (simp add: fromstate_loop_def)
qed

lemma create_eq_foldl:
  "create_link_state_dict_and_pair_list n = foldl codec_body (Map.empty, [], 0) (triples n)"
proof -
  have "foldl (\<lambda>c orientation. fromstate_loop n orientation c) c os =
        foldl codec_body c
          (concat (map (\<lambda>orientation.
             concat (map (\<lambda>fromstate.
               map (\<lambda>tostate. (fromstate, tostate, orientation)) [0..<n]) [0..<n])) os))"
    for c os
    by (induction os arbitrary: c) (simp_all add: fromstate_loop_eq)
  then show ?thesis
    by (simp add: create_link_state_dict_and_pair_list_def triples_def)
qed

lemma nth_concat_uniform:
  "\<forall>xs \<in> set xss. length xs = m \<Longrightarrow> i < length xss \<Longrightarrow> j < m \<Longrightarrow>
   concat xss ! (i * m + j) = xss ! i ! j"
proof (induction xss arbitrary: i)
  case Nil
  then show ?case by simp
next
  case (Cons ys xss)
  show ?case
  proof (cases i)
    case 0
    then show ?thesis using Cons.prems by (simp add: nth_append)
  next
    case (Suc i')
    have "concat (ys # xss) ! (i * m + j) = concat xss ! (i' * m + j)"
      using Cons.prems Suc by (simp add: nth_append)
    then show ?thesis using Cons.IH [of i'] Cons.prems Suc by simp
  qed
qed

lemma length_concat_uniform:
  "\<forall>xs \<in> set xss. length xs = m \<Longrightarrow> length (concat xss) = length xss * m"
  by (induction xss) simp_all

lemma length_from_block:
  "length (concat (map (\<lambda>fromstate.
      map (\<lambda>tostate. (fromstate, tostate, orientation)) [0..<n]) [0..<n])) = n * n"
  by (subst length_concat_uniform [where m = n]) auto

lemma length_triples: "length (triples n) = 2 * n * n"
proof -
  have "length (triples n) = length [0..<(2::nat)] * (n * n)"
    unfolding triples_def
    by (subst length_concat_uniform [where m = "n * n"]) (auto simp: length_from_block)
  then show ?thesis by simp
qed

lemma nth_from_block:
  assumes "f < n" "t < n"
  shows "concat (map (\<lambda>fromstate.
      map (\<lambda>tostate. (fromstate, tostate, orientation)) [0..<n]) [0..<n]) ! (f * n + t)
    = (f, t, orientation)"
  using assms by (subst nth_concat_uniform [where m = n]) auto

lemma nth_triples:
  assumes "f < n" "t < n" "orientation < 2"
  shows "triples n ! (orientation * n * n + f * n + t) = (f, t, orientation)"
proof -
  have lt: "f * n + t < n * n"
  proof -
    have "f * n + t < f * n + n" using assms by simp
    also have "\<dots> = Suc f * n" by simp
    also have "\<dots> \<le> n * n" using assms by (intro mult_le_mono1) simp
    finally show ?thesis .
  qed
  have "triples n ! (orientation * (n * n) + (f * n + t)) =
        map (\<lambda>orientation. concat (map (\<lambda>fromstate.
          map (\<lambda>tostate. (fromstate, tostate, orientation)) [0..<n]) [0..<n])) [0..<2]
          ! orientation ! (f * n + t)"
    unfolding triples_def using assms lt
    by (subst nth_concat_uniform [where m = "n * n"]) (auto simp: length_from_block)
  also have "\<dots> = (f, t, orientation)"
    using assms by (simp add: nth_from_block)
  finally show ?thesis by (simp add: algebra_simps)
qed

lemma set_triples:
  "set (triples n) = {(f, t, orientation). f < n \<and> t < n \<and> orientation < 2}"
  by (auto simp: triples_def image_iff)

lemma triples_index_bound:
  fixes n f t orientation :: nat
  assumes "f < n" "t < n" "orientation < 2"
  shows "orientation * n * n + f * n + t < 2 * n * n"
proof -
  have "f * n + t < f * n + n" using assms by simp
  also have "\<dots> = Suc f * n" by simp
  also have "\<dots> \<le> n * n" using assms by (intro mult_le_mono1) simp
  finally have a: "f * n + t < n * n" .
  have "orientation * (n * n) + (n * n) = Suc orientation * (n * n)" by simp
  also have "\<dots> \<le> 2 * (n * n)" using assms by (intro mult_le_mono1) simp
  finally have b: "orientation * (n * n) + (n * n) \<le> 2 * (n * n)" .
  have "orientation * n * n + f * n + t = orientation * (n * n) + (f * n + t)"
    by (simp add: mult.assoc)
  also have "\<dots> < orientation * (n * n) + (n * n)" using a by simp
  also have "\<dots> \<le> 2 * (n * n)" by (rule b)
  finally show ?thesis by (simp add: mult.assoc)
qed

lemma distinct_triples: "distinct (triples n)"
proof -
  have split_mod: "m mod (n * n) = m mod (n * n) div n * n + m mod n" for m
    using div_mult_mod_eq [of "m mod (n * n)" n] by (simp add: mod_mod_cancel)
  have decomp: "triples n ! m = (m mod (n * n) div n, m mod n, m div (n * n))"
    if m: "m < 2 * n * n" for m
  proof -
    have n0: "0 < n" using m by (cases n) simp_all
    define orientation where "orientation = m div (n * n)"
    define f where "f = m mod (n * n) div n"
    define t where "t = m mod n"
    have "m < 2 * (n * n)" using m by (simp add: mult.assoc)
    then have o2: "orientation < 2"
      unfolding orientation_def by (rule less_mult_imp_div_less)
    have "m mod (n * n) < n * n" using n0 by simp
    then have fn: "f < n"
      unfolding f_def by (rule less_mult_imp_div_less)
    have tn: "t < n" unfolding t_def using n0 by simp
    have "m = orientation * (n * n) + m mod (n * n)"
      unfolding orientation_def by (rule div_mult_mod_eq [symmetric])
    also have "\<dots> = orientation * (n * n) + (f * n + t)"
      unfolding f_def t_def using split_mod [of m] by simp
    finally have "m = orientation * n * n + f * n + t"
      by (simp add: mult.assoc)
    then have "triples n ! m = (f, t, orientation)"
      using nth_triples [OF fn tn o2] by simp
    then show ?thesis
      by (simp add: f_def t_def orientation_def)
  qed
  have inj: "i = j"
    if i: "i < length (triples n)" and j: "j < length (triples n)"
      and eq: "triples n ! i = triples n ! j" for i j
  proof -
    have e: "i mod (n * n) div n = j mod (n * n) div n" "i mod n = j mod n"
         "i div (n * n) = j div (n * n)"
      using decomp [of i] decomp [of j] i j eq by (simp_all add: length_triples)
    have m: "i mod (n * n) = j mod (n * n)"
      using split_mod [of i] split_mod [of j] e by simp
    have "i = i div (n * n) * (n * n) + i mod (n * n)"
      by (rule div_mult_mod_eq [symmetric])
    also have "\<dots> = j div (n * n) * (n * n) + j mod (n * n)"
      by (simp only: e m)
    also have "\<dots> = j" by (rule div_mult_mod_eq)
    finally show ?thesis .
  qed
  show ?thesis
    unfolding distinct_conv_nth using inj by blast
qed

lemma create_codec:
  "create_link_state_dict_and_pair_list n =
     (store_keys Map.empty 0 (triples n), triples n, length (triples n))"
  by (simp add: create_eq_foldl foldl_codec_body)

lemma cell_pair_of_eq: "cell_pair_of n = triples n"
  by (simp add: cell_pair_of_def create_codec)

lemma link_state_dict_nth:
  "i < length (triples n) \<Longrightarrow> link_state_dict_of n (triples n ! i) = Some i"
  using store_keys_nth [OF distinct_triples, of i n Map.empty 0]
  by (simp add: link_state_dict_of_def create_codec)

lemma link_state_dict_None:
  "x \<notin> set (triples n) \<Longrightarrow> link_state_dict_of n x = None"
  by (simp add: link_state_dict_of_def create_codec store_keys_notin)

lemma link_state_dict_canonical:
  assumes "f < n" "t < n" "orientation < 2"
  shows "link_state_dict_of n (f, t, orientation) = Some (orientation * n * n + f * n + t)"
proof -
  have "orientation * n * n + f * n + t < length (triples n)"
    using triples_index_bound [OF assms] by (simp add: length_triples)
  from link_state_dict_nth [OF this] show ?thesis
    by (simp add: nth_triples [OF assms])
qed

subsection \<open>Claims about the codec\<close>

text \<open>
  C2. The codec enumerates the triples with the orientation outermost, then the
  from-state, then the to-state: a triple \<open>(f, t, o)\<close> with \<open>f, t < N\<close> and
  \<open>o < 2\<close> gets the id \<open>o * N * N + f * N + t\<close>, and the number of link states
  (the final counter, the length of \<open>cell_pair\<close>, and \<open>num_link_states\<close>) is
  \<open>2 * N * N\<close>.
\<close>

theorem codec_canonical_enumeration:
  assumes "f < n" "t < n" "orientation < 2"
  shows "lookup (link_state_dict_of n) (f, t, orientation)
           = Inr (orientation * n * n + f * n + t)
       \<and> snd (snd (create_link_state_dict_and_pair_list n)) = 2 * n * n
       \<and> length (cell_pair_of n) = 2 * n * n
       \<and> num_link_states_of n = 2 * n * n"
  using link_state_dict_canonical [OF assms]
  by (simp add: lookup_def create_codec cell_pair_of_eq length_triples num_link_states_of_def)

theorem codec_canonical_enumeration_witness:
  "(0::nat) < 2 \<and> (1::nat) < 2
   \<and> lookup (link_state_dict_of 2) (0, 1, 1) = Inr 5
   \<and> snd (snd (create_link_state_dict_and_pair_list 2)) = 8
   \<and> length (cell_pair_of 2) = 8
   \<and> num_link_states_of 2 = 8"
  using codec_canonical_enumeration [of 0 2 1 1] by simp

text \<open>
  C8. Encoding and decoding are mutual inverses on the whole domain: for
  \<open>f, t < N\<close> and \<open>o < 2\<close> the dictionary holds an id \<open>k\<close> for \<open>(f, t, o)\<close> with
  \<open>cell_pair[k] = (f, t, o)\<close>, and for every id \<open>i < 2 * N * N\<close> the dictionary
  maps \<open>cell_pair[i]\<close> back to \<open>i\<close>.
\<close>

theorem codec_roundtrip:
  "(f < n \<and> t < n \<and> orientation < 2 \<longrightarrow>
      (\<exists>k < length (cell_pair_of n).
         lookup (link_state_dict_of n) (f, t, orientation) = Inr k
         \<and> cell_pair_of n ! k = (f, t, orientation)))
   \<and> (i < num_link_states_of n \<longrightarrow>
      i < length (cell_pair_of n)
      \<and> lookup (link_state_dict_of n) (cell_pair_of n ! i) = Inr i)"
proof (intro conjI impI)
  assume a: "f < n \<and> t < n \<and> orientation < 2"
  then have ft: "f < n" "t < n" "orientation < 2" by simp_all
  let ?k = "orientation * n * n + f * n + t"
  have "?k < length (cell_pair_of n)"
    using triples_index_bound [OF ft] by (simp add: cell_pair_of_eq length_triples)
  moreover have "lookup (link_state_dict_of n) (f, t, orientation) = Inr ?k"
    using link_state_dict_canonical [OF ft] by (simp add: lookup_def)
  moreover have "cell_pair_of n ! ?k = (f, t, orientation)"
    using nth_triples [OF ft] by (simp add: cell_pair_of_eq)
  ultimately show "\<exists>k < length (cell_pair_of n).
         lookup (link_state_dict_of n) (f, t, orientation) = Inr k
         \<and> cell_pair_of n ! k = (f, t, orientation)"
    by blast
next
  assume "i < num_link_states_of n"
  then show "i < length (cell_pair_of n)"
    by (simp add: num_link_states_of_def cell_pair_of_eq length_triples)
next
  assume "i < num_link_states_of n"
  then have "i < length (triples n)"
    by (simp add: num_link_states_of_def length_triples)
  from link_state_dict_nth [OF this]
  show "lookup (link_state_dict_of n) (cell_pair_of n ! i) = Inr i"
    by (simp add: lookup_def cell_pair_of_eq)
qed

theorem codec_roundtrip_witness:
  "(\<exists>k < length (cell_pair_of 2).
       lookup (link_state_dict_of 2) (1, 0, 1) = Inr k
       \<and> cell_pair_of 2 ! k = (1, 0, 1))
   \<and> (3::nat) < length (cell_pair_of 2)
   \<and> lookup (link_state_dict_of 2) (cell_pair_of 2 ! 3) = Inr 3"
  using codec_roundtrip [of 1 2 0 1 3] by (simp add: num_link_states_of_def)

end
